theory Spec2Isabelle
  imports Main
begin

section \<open>JavaScript strings\<close>

text \<open>
  A JavaScript string is modelled as a list of code units. A \<^typ>\<open>char\<close> stands for
  a code unit in the range U+0000 .. U+00FF; the character classes below (white space,
  word characters, upper case) are the ones ECMAScript gives to that range.
\<close>

text \<open>\<^verbatim>\<open>Array.prototype.join\<close> on an array of strings.\<close>

fun join :: "string \<Rightarrow> string list \<Rightarrow> string" where
  "join sep [] = []"
| "join sep [x] = x"
| "join sep (x # y # ys) = x @ sep @ join sep (y # ys)"

text \<open>\<^verbatim>\<open>s.split(c)\<close> for a one-character separator: never the empty array.\<close>

fun split :: "char \<Rightarrow> string \<Rightarrow> string list" where
  "split c [] = [[]]"
| "split c (x # xs) =
     (if x = c then [] # split c xs
      else (case split c xs of [] \<Rightarrow> [[x]] | p # ps \<Rightarrow> (x # p) # ps))"

text \<open>White space of \<^verbatim>\<open>String.prototype.trim\<close> and of the regular expression class \<^verbatim>\<open>\s\<close>.\<close>

definition is_space :: "char \<Rightarrow> bool" where
  "is_space c \<longleftrightarrow>
     c \<in> set [CHR 0x09, CHR 0x0A, CHR 0x0B, CHR 0x0C, CHR 0x0D, CHR 0x20, CHR 0xA0]"

definition trim :: "string \<Rightarrow> string" where
  "trim s = rev (dropWhile is_space (rev (dropWhile is_space s)))"

text \<open>\<^verbatim>\<open>s.startsWith(p)\<close>, \<^verbatim>\<open>s.endsWith(p)\<close> and \<^verbatim>\<open>s.includes(p)\<close>.\<close>

fun startsWith :: "string \<Rightarrow> string \<Rightarrow> bool" where
  "startsWith s [] = True"
| "startsWith [] (p # ps) = False"
| "startsWith (c # cs) (p # ps) = (c = p \<and> startsWith cs ps)"

definition endsWith :: "string \<Rightarrow> string \<Rightarrow> bool" where
  "endsWith s p = startsWith (rev s) (rev p)"

fun str_includes :: "string \<Rightarrow> string \<Rightarrow> bool" where
  "str_includes [] p = (p = [])"
| "str_includes (c # cs) p = (startsWith (c # cs) p \<or> str_includes cs p)"

text \<open>\<^verbatim>\<open>s.toLowerCase()\<close>.\<close>

text \<open>
  Upper-case code units are A .. Z and U+00C0 .. U+00DE without the multiplication sign
  U+00D7; the lower-case partner is 32 higher, which in both ranges is the same code
  unit with bit 5 set.
\<close>

definition is_upper :: "char \<Rightarrow> bool" where
  "is_upper c \<longleftrightarrow>
     (let n = (of_char c :: nat)
      in (65 \<le> n \<and> n \<le> 90) \<or> (192 \<le> n \<and> n \<le> 222 \<and> n \<noteq> 215))"

definition lower_char :: "char \<Rightarrow> char" where
  "lower_char c =
     (if is_upper c
      then (case c of Char b0 b1 b2 b3 b4 b5 b6 b7 \<Rightarrow> Char b0 b1 b2 b3 b4 True b6 b7)
      else c)"

definition toLowerCase :: "string \<Rightarrow> string" where
  "toLowerCase s = map lower_char s"

section \<open>Citation formatter: the APA style\<close>

text \<open>
  The interface \<^verbatim>\<open>ArticleInfo\<close>. Its fields carry the prefix \<open>info_\<close> here, since
  \<open>title\<close> is also a field of a label section.
\<close>

record ArticleInfo =
  info_authors :: "string list"
  info_title :: string
  info_journal :: string
  info_year :: string
  info_volume :: string
  info_issue :: string
  info_pages :: string
  info_doi :: string
  info_pmid :: string

text \<open>
  \<^verbatim>\<open>p[0] + "."\<close>: indexing the empty string yields \<^verbatim>\<open>undefined\<close>, which the
  concatenation renders as the text \<^verbatim>\<open>undefined\<close>.
\<close>

definition initial_dot :: "string \<Rightarrow> string" where
  "initial_dot p = (case p of [] \<Rightarrow> ''undefined'' | c # _ \<Rightarrow> [c]) @ ''.''"

text \<open>
  The arrow function that \<^verbatim>\<open>formatApa\<close> applies to one author (the source repeats
  its body three times, unchanged): \<^verbatim>\<open>parts[0]\<close>, then the initialed \<^verbatim>\<open>parts.slice(1)\<close>.
\<close>

definition apa_author :: "string \<Rightarrow> string" where
  "apa_author a =
     (let parts = split CHR '' '' a;
          last = (case parts of [] \<Rightarrow> ''undefined'' | p # _ \<Rightarrow> p);
          initials = join '' '' (map initial_dot (tl parts))
      in last @ '', '' @ initials)"

definition apa_authorStr :: "string list \<Rightarrow> string" where
  "apa_authorStr as =
     (if length as = 0 then ''''
      else if length as \<le> 7 then join '', '' (map apa_author as)
      else join '', '' (map apa_author (take 6 as)) @ '', ... '' @
           apa_author (as ! (length as - 1)))"

definition formatApa :: "ArticleInfo \<Rightarrow> string" where
  "formatApa info =
     (let authorStr = apa_authorStr (info_authors info);
          yearPart = (if info_year info \<noteq> [] then '' ('' @ info_year info @ '').'' else ''.'');
          titlePart = (if endsWith (info_title info) ''.'' then '' '' @ info_title info
                       else '' '' @ info_title info @ ''.'');
          journalPart = '' *'' @ info_journal info @ ''*'';
          volPart = (if info_volume info \<noteq> [] then '', *'' @ info_volume info @ ''*'' else '''');
          issuePart = (if info_issue info \<noteq> [] then ''('' @ info_issue info @ '')'' else '''');
          pagesPart = (if info_pages info \<noteq> [] then '', '' @ info_pages info else '''');
          doiPart = (if info_doi info \<noteq> [] then '' https://doi.org/'' @ info_doi info else '''')
      in trim (authorStr @ yearPart @ titlePart @ journalPart @ volPart @ issuePart @
               pagesPart @ ''.'' @ doiPart))"


section \<open>Label sections and the crosswalk table\<close>

record LabelSection =
  code :: string
  title :: string
  content :: string

text \<open>
  The interface \<^verbatim>\<open>SectionMapping\<close>; its field \<^verbatim>\<open>topic\<close> is \<open>m_topic\<close> here, as
  \<open>topic\<close> is also a field of a comparison row.
\<close>

record SectionMapping =
  m_topic :: string
  us_loinc :: string
  uk_code :: string

definition SECTION_MAP :: "SectionMapping list" where
  "SECTION_MAP =
    [\<lparr>m_topic = ''Indications'', us_loinc = ''34067-9'', uk_code = ''4.1''\<rparr>,
     \<lparr>m_topic = ''Dosing'', us_loinc = ''34068-7'', uk_code = ''4.2''\<rparr>,
     \<lparr>m_topic = ''Contraindications'', us_loinc = ''34070-3'', uk_code = ''4.3''\<rparr>,
     \<lparr>m_topic = ''Warnings'', us_loinc = ''43685-7'', uk_code = ''4.4''\<rparr>,
     \<lparr>m_topic = ''Drug Interactions'', us_loinc = ''34073-7'', uk_code = ''4.5''\<rparr>,
     \<lparr>m_topic = ''Pregnancy'', us_loinc = ''42228-7'', uk_code = ''4.6''\<rparr>,
     \<lparr>m_topic = ''Adverse Reactions'', us_loinc = ''34084-4'', uk_code = ''4.8''\<rparr>,
     \<lparr>m_topic = ''Overdosage'', us_loinc = ''34088-5'', uk_code = ''4.9''\<rparr>,
     \<lparr>m_topic = ''Clinical Pharmacology'', us_loinc = ''34090-1'', uk_code = ''5.1''\<rparr>]"

text \<open>The callback of \<^verbatim>\<open>requestedTopics.some\<close> in \<^verbatim>\<open>filterSectionMap\<close>.\<close>

definition topic_requested :: "SectionMapping \<Rightarrow> string \<Rightarrow> bool" where
  "topic_requested mapping req =
     (let lower = trim (toLowerCase req)
      in str_includes (toLowerCase (m_topic mapping)) lower \<or>
         str_includes lower (toLowerCase (m_topic mapping)) \<or>
         us_loinc mapping = req \<or>
         uk_code mapping = req)"

text \<open>An omitted optional argument is \<open>None\<close>.\<close>

definition filterSectionMap :: "string list option \<Rightarrow> SectionMapping list" where
  "filterSectionMap requestedTopics =
     (case requestedTopics of
        None \<Rightarrow> SECTION_MAP
      | Some reqs \<Rightarrow>
          if length reqs = 0 then SECTION_MAP
          else filter (\<lambda>mapping. list_ex (topic_requested mapping) reqs) SECTION_MAP)"

section \<open>The UK label extractor\<close>

text \<open>
  The label page, as the queries of \<^verbatim>\<open>parseSmpcSections\<close> see it. An element is
  its text content (\<^verbatim>\<open>$(el).text()\<close>), the number of its child elements, whether it
  is one of the inline tags \<^verbatim>\<open>a, span, strong, em, b, i\<close>, its identity as a node,
  its following sibling elements in order (each with its identity and the text
  \<^verbatim>\<open>htmlToText\<close> gives for its markup), and the text \<^verbatim>\<open>htmlToText\<close> gives for the
  markup of its parent (\<open>None\<close> when that markup is empty). A page is the list of
  elements that the selector of the first strategy matches, and the list of all its
  elements, both in document order.
\<close>

record element =
  el_text :: string
  el_children :: nat
  el_inline :: bool
  el_id :: nat
  el_following :: "(nat \<times> string) list"
  el_parent :: "string option"

record page =
  structural :: "element list"
  everything :: "element list"

definition SMPC_SECTION_NAMES :: "(string \<times> string) list" where
  "SMPC_SECTION_NAMES =
    [(''4.1'', ''Therapeutic indications''),
     (''4.2'', ''Posology and method of administration''),
     (''4.3'', ''Contraindications''),
     (''4.4'', ''Special warnings and precautions for use''),
     (''4.5'', ''Interaction with other medicinal products''),
     (''4.6'', ''Fertility, pregnancy and lactation''),
     (''4.7'', ''Effects on ability to drive and use machines''),
     (''4.8'', ''Undesirable effects''),
     (''4.9'', ''Overdose''),
     (''5.1'', ''Pharmacodynamic properties''),
     (''5.2'', ''Pharmacokinetic properties''),
     (''5.3'', ''Preclinical safety data''),
     (''6.1'', ''List of excipients''),
     (''6.2'', ''Incompatibilities''),
     (''6.3'', ''Shelf life''),
     (''6.4'', ''Special precautions for storage''),
     (''6.5'', ''Nature and contents of container''),
     (''6.6'', ''Special precautions for disposal'')]"

definition is_digit :: "char \<Rightarrow> bool" where
  "is_digit c \<longleftrightarrow> c \<in> set ''0123456789''"

text \<open>
  The match of \<^verbatim>\<open>/^(\d+\.?\d*)\s+(.+)/\<close> against the trimmed text of an element:
  its two groups. After the digits, the optional dot and the further digits there must
  be white space (\<open>r4\<close> is shorter than \<open>r3\<close>) and then text; the second group
  runs from there to the first line terminator.
\<close>

definition heading_match :: "string \<Rightarrow> (string \<times> string) option" where
  "heading_match raw =
     (let text = trim raw;
          d1 = takeWhile is_digit text;
          r1 = dropWhile is_digit text;
          dot = (if startsWith r1 ''.'' then ''.'' else []);
          r2 = drop (length dot) r1;
          d2 = takeWhile is_digit r2;
          r3 = dropWhile is_digit r2;
          r4 = dropWhile is_space r3
      in if d1 = [] \<or> r4 = [] \<or> length r4 = length r3 then None
         else Some (d1 @ dot @ d2, takeWhile (\<lambda>c. c \<noteq> CHR 0x0A \<and> c \<noteq> CHR 0x0D) r4))"

text \<open>
  \<^verbatim>\<open>sectionElements\<close>: code, title and element of each heading. The first strategy
  takes every matching element of the selector; the second, used when the first finds
  nothing, takes the elements without children or of an inline tag whose code is a key
  of \<^verbatim>\<open>SMPC_SECTION_NAMES\<close>.
\<close>

definition strategy1 :: "page \<Rightarrow> (string \<times> string \<times> element) list" where
  "strategy1 html =
     List.map_filter
       (\<lambda>el. case heading_match (el_text el) of
               None \<Rightarrow> None
             | Some (c, t) \<Rightarrow> Some (c, trim t, el))
       (structural html)"

definition strategy2 :: "page \<Rightarrow> (string \<times> string \<times> element) list" where
  "strategy2 html =
     List.map_filter
       (\<lambda>el. if el_children el > 0 \<and> \<not> el_inline el then None
             else (case heading_match (el_text el) of
                     None \<Rightarrow> None
                   | Some (c, t) \<Rightarrow>
                       if map_of SMPC_SECTION_NAMES c \<noteq> None then Some (c, trim t, el)
                       else None))
       (everything html)"

definition sectionElements :: "page \<Rightarrow> (string \<times> string \<times> element) list" where
  "sectionElements html =
     (if length (strategy1 html) = 0 then strategy2 html else strategy1 html)"

text \<open>\<^verbatim>\<open>s.replace(p, "")\<close> for a string \<open>p\<close>: the first occurrence is removed.\<close>

fun remove_first :: "string \<Rightarrow> string \<Rightarrow> string" where
  "remove_first [] p = []"
| "remove_first (c # cs) p =
     (if startsWith (c # cs) p then drop (length p) (c # cs) else c # remove_first cs p)"

text \<open>
  The content of one heading: the texts of the siblings after it, up to the element of
  the next heading, each followed by a newline; when that is blank, the text of the
  parent without the heading's own text.
\<close>

definition section_of :: "(string \<times> string \<times> element) \<Rightarrow> element option \<Rightarrow> LabelSection" where
  "section_of current next_element =
     (case current of (c, t, el) \<Rightarrow>
        (let siblings =
               takeWhile
                 (\<lambda>(node, txt). case next_element of None \<Rightarrow> True | Some n \<Rightarrow> node \<noteq> el_id n)
                 (el_following el);
             content0 = concat (map (\<lambda>(node, txt). txt @ [CHR 0x0A]) siblings);
             content1 =
               (if trim content0 = []
                then (case el_parent el of
                        None \<Rightarrow> content0
                      | Some parentText \<Rightarrow> trim (remove_first parentText (trim (el_text el))))
                else content0)
         in \<lparr>code = c, title = t, content = trim content1\<rparr>))"

fun smpc_results :: "(string \<times> string \<times> element) list \<Rightarrow> LabelSection list" where
  "smpc_results [] = []"
| "smpc_results [current] = [section_of current None]"
| "smpc_results (current # nxt # rest) =
     section_of current (Some (snd (snd nxt))) # smpc_results (nxt # rest)"

text \<open>
  The filter by \<^verbatim>\<open>requestedSections\<close>. The callback of
  \<^verbatim>\<open>requestedSections.some\<close> returns from the first test that applies.
\<close>

definition smpc_request_matches :: "LabelSection \<Rightarrow> string \<Rightarrow> bool" where
  "smpc_request_matches s req =
     (let lower = trim (toLowerCase req)
      in if code s = lower \<or> code s = req then True
         else if str_includes (toLowerCase (title s)) lower then True
         else if str_includes lower ''indication'' then code s = ''4.1''
         else if str_includes lower ''dosage'' \<or> str_includes lower ''dosing'' \<or>
                 str_includes lower ''posology'' then code s = ''4.2''
         else if str_includes lower ''contraindication'' then code s = ''4.3''
         else if str_includes lower ''warning'' \<or> str_includes lower ''precaution''
              then code s = ''4.4''
         else if str_includes lower ''interaction'' then code s = ''4.5''
         else if str_includes lower ''pregnancy'' \<or> str_includes lower ''fertility''
              then code s = ''4.6''
         else if str_includes lower ''adverse'' \<or> str_includes lower ''undesirable'' \<or>
                 str_includes lower ''side effect'' then code s = ''4.8''
         else if str_includes lower ''overdose'' \<or> str_includes lower ''overdosage''
              then code s = ''4.9''
         else if str_includes lower ''pharmacodynamic'' then code s = ''5.1''
         else if str_includes lower ''pharmacokinetic'' then code s = ''5.2''
         else False)"

definition filter_requested :: "LabelSection list \<Rightarrow> string list option \<Rightarrow> LabelSection list" where
  "filter_requested results requestedSections =
     (case requestedSections of
        None \<Rightarrow> results
      | Some reqs \<Rightarrow>
          if length reqs > 0
          then filter (\<lambda>s. list_ex (smpc_request_matches s) reqs) results
          else results)"

definition parseSmpcSections :: "page \<Rightarrow> string list option \<Rightarrow> LabelSection list" where
  "parseSmpcSections html requestedSections =
     filter_requested (smpc_results (sectionElements html)) requestedSections"

section \<open>The US label tool: resolving requests and the fallback\<close>

text \<open>\<^verbatim>\<open>LOINC_MAP\<close>, in the order of its keys.\<close>

definition LOINC_MAP :: "(string \<times> string) list" where
  "LOINC_MAP =
    [(''boxed warning'', ''34071-1''),
     (''indications'', ''34067-9''),
     (''indications and usage'', ''34067-9''),
     (''dosage'', ''34068-7''),
     (''dosage and administration'', ''34068-7''),
     (''dosage forms'', ''43678-2''),
     (''contraindications'', ''34070-3''),
     (''warnings'', ''43685-7''),
     (''warnings and precautions'', ''43685-7''),
     (''adverse reactions'', ''34084-4''),
     (''drug interactions'', ''34073-7''),
     (''use in specific populations'', ''42228-7''),
     (''pregnancy'', ''42228-7''),
     (''overdosage'', ''34088-5''),
     (''clinical pharmacology'', ''34090-1''),
     (''description'', ''34089-3''),
     (''how supplied'', ''34069-5''),
     (''storage'', ''44425-7''),
     (''patient counseling'', ''34076-0''),
     (''medication guide'', ''42231-1'')]"

text \<open>
  \<^verbatim>\<open>[...new Set(xs)]\<close> keeps the first occurrence of each element, in order.
\<close>

fun set_spread :: "'a list \<Rightarrow> 'a list" where
  "set_spread [] = []"
| "set_spread (x # xs) = x # filter (\<lambda>y. y \<noteq> x) (set_spread xs)"

definition ALL_PI_CODES :: "string list" where
  "ALL_PI_CODES = set_spread (map snd LOINC_MAP)"

text \<open>The test of the regular expression \<^verbatim>\<open>/^\d{5}-\d$/\<close>.\<close>

definition is_loinc_code :: "string \<Rightarrow> bool" where
  "is_loinc_code s \<longleftrightarrow>
     length s = 7 \<and> list_all is_digit (take 5 s) \<and> s ! 5 = CHR ''-'' \<and> is_digit (s ! 6)"

text \<open>
  The loop of \<^verbatim>\<open>resolveLoincCodes\<close>; \<^verbatim>\<open>undefined\<close> is \<open>None\<close>.
\<close>

fun resolve_loop :: "string list \<Rightarrow> string list \<Rightarrow> string list" where
  "resolve_loop codes [] = codes"
| "resolve_loop codes (input # rest) =
     (let lower = trim (toLowerCase input)
      in if is_loinc_code lower then resolve_loop (codes @ [lower]) rest
         else (case find (\<lambda>(name, c). str_includes name lower \<or> str_includes lower name)
                      LOINC_MAP of
                 Some match \<Rightarrow> resolve_loop (codes @ [snd match]) rest
               | None \<Rightarrow> resolve_loop codes rest))"

definition resolveLoincCodes :: "string list option \<Rightarrow> string list option" where
  "resolveLoincCodes sections =
     (case sections of
        None \<Rightarrow> None
      | Some inputs \<Rightarrow>
          if length inputs = 0 then None
          else (let codes = resolve_loop [] inputs
                in if length codes > 0 then Some codes else None))"

text \<open>The object literal \<^verbatim>\<open>{ code: s.code, title: s.title, content: s.content }\<close>.\<close>

definition copy_section :: "LabelSection \<Rightarrow> LabelSection" where
  "copy_section s = \<lparr>code = code s, title = title s, content = content s\<rparr>"

text \<open>
  The sections of the result of \<^verbatim>\<open>get_uspi\<close>. The extractor \<^verbatim>\<open>parseSplSections\<close>
  is the parameter \<open>parse\<close>, applied to the structured body of the label.
\<close>

definition uspi_sections ::
  "('b \<Rightarrow> string list option \<Rightarrow> LabelSection list) \<Rightarrow> 'b \<Rightarrow> string list option \<Rightarrow>
   LabelSection list" where
  "uspi_sections parse structuredBody sections =
     (let requestedCodes = resolveLoincCodes sections;
          rawSections = parse structuredBody requestedCodes
      in if length rawSections > 0 then map copy_section rawSections
         else map copy_section (parse structuredBody (Some ALL_PI_CODES)))"

text \<open>
  Modelled from the spec: the structured body that \<^verbatim>\<open>parseSplSections\<close> of
  \<^verbatim>\<open>lib/xml-parser\<close> walks. The tools import that function and the sources do not
  contain it. A component of the hierarchy is its declared code, its title, its
  flattened content and its nested components.
\<close>

datatype spl_component = Component string string string "spl_component list"

text \<open>
  Modelled from the spec: the walk of \<^verbatim>\<open>parseSplSections\<close> over one component and
  the components nested in it. The specification: for every component whose declared
  code matches a requested code, emit a section keyed by that code with its title and
  flattened content.
\<close>

fun walk_component :: "string list \<Rightarrow> spl_component \<Rightarrow> LabelSection list" where
  "walk_component codes (Component c t txt subs) =
     (if c \<in> set codes then [\<lparr>code = c, title = t, content = txt\<rparr>] else []) @
     concat (map (walk_component codes) subs)"

text \<open>
  Modelled from the spec: \<^verbatim>\<open>parseSplSections\<close>, missing from the sources. The
  specification: walk the component hierarchy of the document with the requested set of
  codes, or with the fixed full known-code list when none is requested.
\<close>

definition parseSplSections :: "spl_component list \<Rightarrow> string list option \<Rightarrow> LabelSection list" where
  "parseSplSections structuredBody loincCodes =
     concat (map (walk_component (case loincCodes of None \<Rightarrow> ALL_PI_CODES | Some cs \<Rightarrow> cs))
                 structuredBody)"

section \<open>The label comparison\<close>

text \<open>
  A \<^verbatim>\<open>Map\<close> keeps its keys in the order of their first insertion; \<^verbatim>\<open>set\<close> on a
  key that is present replaces the value in place.
\<close>

type_synonym ('k, 'v) js_map = "('k \<times> 'v) list"

fun map_set :: "('k, 'v) js_map \<Rightarrow> 'k \<Rightarrow> 'v \<Rightarrow> ('k, 'v) js_map" where
  "map_set [] k v = [(k, v)]"
| "map_set ((k', v') # m) k v =
     (if k' = k then (k, v) # m else (k', v') # map_set m k v)"

definition map_get :: "('k, 'v) js_map \<Rightarrow> 'k \<Rightarrow> 'v option" where
  "map_get m k = map_of m k"

definition map_size :: "('k, 'v) js_map \<Rightarrow> nat" where
  "map_size m = length m"

text \<open>
  What the network and the parser hand to \<^verbatim>\<open>fetchUsSections\<close> and
  \<^verbatim>\<open>fetchUkSections\<close>: an exception (with the text that a template literal gives
  its value), an empty search result, or the identifier of the best match together with
  its document.
\<close>

datatype 'd upstream = Failed string | NoResults | Found string 'd

record fetched =
  sections :: "(string, LabelSection) js_map"
  source :: "string option"

text \<open>The outcome of a promise under \<^verbatim>\<open>Promise.allSettled\<close>.\<close>

datatype 'a settled = Fulfilled 'a | Rejected string

text \<open>The loop \<^verbatim>\<open>for (const s of rawSections) sectionMap.set(s.code, ...)\<close>.\<close>

definition index_sections :: "LabelSection list \<Rightarrow> (string, LabelSection) js_map" where
  "index_sections rawSections =
     foldl (\<lambda>sectionMap s. map_set sectionMap (code s) (copy_section s)) [] rawSections"

definition fetchUsSections ::
  "('b \<Rightarrow> string list option \<Rightarrow> LabelSection list) \<Rightarrow> 'b upstream \<Rightarrow> string list \<Rightarrow>
   fetched settled" where
  "fetchUsSections parse up loincCodes =
     (case up of
        Failed reason \<Rightarrow> Rejected reason
      | NoResults \<Rightarrow> Fulfilled \<lparr>sections = [], source = None\<rparr>
      | Found setid structuredBody \<Rightarrow>
          Fulfilled
            \<lparr>sections = index_sections (parse structuredBody (Some loincCodes)),
             source = Some (''https://dailymed.nlm.nih.gov/dailymed/drugInfo.cfm?setid='' @ setid)\<rparr>)"

definition fetchUkSections :: "page upstream \<Rightarrow> string list \<Rightarrow> fetched settled" where
  "fetchUkSections up ukCodes =
     (case up of
        Failed reason \<Rightarrow> Rejected reason
      | NoResults \<Rightarrow> Fulfilled \<lparr>sections = [], source = None\<rparr>
      | Found product_id html \<Rightarrow>
          Fulfilled
            \<lparr>sections = index_sections (parseSmpcSections html (Some ukCodes)),
             source = Some (''https://www.medicines.org.uk/emc/product/'' @ product_id @ ''/smpc'')\<rparr>)"

record LabelComparison =
  topic :: string
  us_section :: "LabelSection option"
  uk_section :: "LabelSection option"

record CompareLabelsResult =
  drug :: string
  comparisons :: "LabelComparison list"
  us_source :: "string option"
  uk_source :: "string option"

text \<open>
  The two error results of \<^verbatim>\<open>compare_labels\<close>: no mapping row for the requested
  topics, and no labelling on either side, with the drug and the optional \<^verbatim>\<open>details\<close>.
\<close>

datatype compare_error = NoMappings | NoLabelling string "string list option"

definition settled_value :: "fetched settled \<Rightarrow> fetched" where
  "settled_value r =
     (case r of Fulfilled v \<Rightarrow> v | Rejected _ \<Rightarrow> \<lparr>sections = [], source = None\<rparr>)"

definition rejection :: "string \<Rightarrow> fetched settled \<Rightarrow> string list" where
  "rejection side r = (case r of Rejected reason \<Rightarrow> [side @ '': '' @ reason] | Fulfilled _ \<Rightarrow> [])"

definition compare_labels ::
  "('b \<Rightarrow> string list option \<Rightarrow> LabelSection list) \<Rightarrow> string \<Rightarrow> string list option \<Rightarrow>
   'b upstream \<Rightarrow> page upstream \<Rightarrow> compare_error + CompareLabelsResult" where
  "compare_labels parse drug_name requested us_up uk_up =
     (let mappings = filterSectionMap requested
      in if length mappings = 0 then Inl NoMappings
         else
           (let loincCodes = map us_loinc mappings;
                ukCodes = map uk_code mappings;
                usResult = fetchUsSections parse us_up loincCodes;
                ukResult = fetchUkSections uk_up ukCodes;
                us = settled_value usResult;
                uk = settled_value ukResult
            in if map_size (sections us) = 0 \<and> map_size (sections uk) = 0
               then
                 (let errors = rejection ''US'' usResult @ rejection ''UK'' ukResult
                  in Inl (NoLabelling drug_name
                            (if length errors > 0 then Some errors else None)))
               else
                 Inr \<lparr>drug = drug_name,
                      comparisons =
                        map (\<lambda>mapping.
                               \<lparr>topic = m_topic mapping,
                                us_section = map_get (sections us) (us_loinc mapping),
                                uk_section = map_get (sections uk) (uk_code mapping)\<rparr>)
                            mappings,
                      us_source = source us,
                      uk_source = source uk\<rparr>))"

text \<open>
  The sections of the result of \<^verbatim>\<open>get_smpc\<close>:
  \<^verbatim>\<open>parseSmpcSections(html, params.sections)\<close>, each section copied.
\<close>

definition smpc_sections :: "page \<Rightarrow> string list option \<Rightarrow> LabelSection list" where
  "smpc_sections html requested = map copy_section (parseSmpcSections html requested)"

section \<open>Parsed documents and the TreeText extractor\<close>

text \<open>
  The values the XML parser produces, and the other values of the language a function
  taking \<^verbatim>\<open>unknown\<close> may meet. A number is represented by the text that
  \<^verbatim>\<open>String\<close> gives it. An object is the list of its entries in the order of
  \<^verbatim>\<open>Object.entries\<close>, with distinct keys.
\<close>

datatype js_value =
    JUndefined
  | JNull
  | JBool bool
  | JNum string
  | JStr string
  | JArr "js_value list"
  | JObj "(string \<times> js_value) list"

text \<open>\<^verbatim>\<open>String(v)\<close>; an array joins its elements with a comma, the empty text for null and undefined.\<close>

fun js_String :: "js_value \<Rightarrow> string" where
  "js_String JUndefined = ''undefined''"
| "js_String JNull = ''null''"
| "js_String (JBool b) = (if b then ''true'' else ''false'')"
| "js_String (JNum s) = s"
| "js_String (JStr s) = s"
| "js_String (JArr vs) =
     join '','' (map (\<lambda>v. if v = JNull \<or> v = JUndefined then [] else js_String v) vs)"
| "js_String (JObj fs) = ''[object Object]''"

text \<open>Truthiness: zero and NaN are the false numbers.\<close>

fun truthy :: "js_value \<Rightarrow> bool" where
  "truthy JUndefined = False"
| "truthy JNull = False"
| "truthy (JBool b) = b"
| "truthy (JNum s) = (s \<noteq> ''0'' \<and> s \<noteq> ''NaN'')"
| "truthy (JStr s) = (s \<noteq> [])"
| "truthy (JArr vs) = True"
| "truthy (JObj fs) = True"

definition has_key :: "(string \<times> js_value) list \<Rightarrow> string \<Rightarrow> bool" where
  "has_key fs k \<longleftrightarrow> k \<in> set (map fst fs)"

text \<open>
  Reading a property \<^verbatim>\<open>v[k]\<close>, for a key that is an element or attribute name,
  gives \<^verbatim>\<open>undefined\<close> on any value that has no such property. On null and
  undefined the read raises a \<^verbatim>\<open>TypeError\<close> instead, which callers test with
  \<open>nullish\<close> first.
\<close>

datatype js_error = TypeError

definition nullish :: "js_value \<Rightarrow> bool" where
  "nullish v \<longleftrightarrow> v = JNull \<or> v = JUndefined"

definition get_prop :: "js_value \<Rightarrow> string \<Rightarrow> js_value" where
  "get_prop v k =
     (case v of
        JObj fs \<Rightarrow> (case map_of fs k of None \<Rightarrow> JUndefined | Some x \<Rightarrow> x)
      | _ \<Rightarrow> JUndefined)"

text \<open>
  \<^verbatim>\<open>extractText\<close>. \<open>extract_each\<close> is \<^verbatim>\<open>value.map(extractText)\<close>;
  \<open>extract_entries\<close> is the loop over \<^verbatim>\<open>Object.entries(obj)\<close> that fills
  \<^verbatim>\<open>parts\<close>. An array has type \<^verbatim>\<open>"object"\<close> too: its entries are its
  elements under their indices, which \<open>extract_elements\<close> walks.
\<close>

fun extractText :: "js_value \<Rightarrow> string"
  and extract_each :: "js_value list \<Rightarrow> string list"
  and extract_entries :: "(string \<times> js_value) list \<Rightarrow> string list"
  and extract_elements :: "js_value list \<Rightarrow> string list" where
  "extractText (JStr s) = s"
| "extractText (JNum s) = s"
| "extractText JNull = []"
| "extractText JUndefined = []"
| "extractText (JObj fs) =
     (if has_key fs ''#text''
      then js_String (get_prop (JObj fs) ''#text'')
      else trim (join '' '' (extract_entries fs)))"
| "extractText (JArr vs) = trim (join '' '' (extract_elements vs))"
| "extractText (JBool b) = js_String (JBool b)"
| "extract_each [] = []"
| "extract_each (v # vs) = extractText v # extract_each vs"
| "extract_entries [] = []"
| "extract_entries ((key, v) # fs) =
     (if \<not> startsWith key ''@_''
      then (case v of JArr vs \<Rightarrow> join '' '' (extract_each vs) | _ \<Rightarrow> extractText v) #
           extract_entries fs
      else extract_entries fs)"
| "extract_elements [] = []"
| "extract_elements (v # vs) =
     (case v of JArr ws \<Rightarrow> join '' '' (extract_each ws) | _ \<Rightarrow> extractText v) #
     extract_elements vs"

section \<open>The bibliographic extractor: authors and DOI\<close>

definition ensureArray :: "js_value \<Rightarrow> js_value list" where
  "ensureArray val =
     (case val of JUndefined \<Rightarrow> [] | JNull \<Rightarrow> [] | JArr vs \<Rightarrow> vs | v \<Rightarrow> [v])"

text \<open>The callback of \<^verbatim>\<open>authors.map\<close> in \<^verbatim>\<open>parseAuthors\<close>.\<close>

definition string_or_empty :: "js_value \<Rightarrow> string" where
  "string_or_empty v = (if truthy v then js_String v else [])"

definition author_name :: "js_value \<Rightarrow> js_error + string" where
  "author_name author =
     (if nullish author then Inl TypeError
      else
        (let last = string_or_empty (get_prop author ''LastName'');
             first = string_or_empty (get_prop author ''ForeName'');
             initials = string_or_empty (get_prop author ''Initials'')
         in if last \<noteq> [] \<and> first \<noteq> [] then Inr (last @ '' '' @ first)
            else if last \<noteq> [] \<and> initials \<noteq> [] then Inr (last @ '' '' @ initials)
            else if truthy (get_prop author ''CollectiveName'')
                 then Inr (js_String (get_prop author ''CollectiveName''))
            else Inr (if last \<noteq> [] then last else if first \<noteq> [] then first else [])))"

text \<open>\<^verbatim>\<open>authors.map(f)\<close> stops at the first exception.\<close>

fun map_names :: "js_value list \<Rightarrow> js_error + string list" where
  "map_names [] = Inr []"
| "map_names (a # as) =
     (case author_name a of
        Inl e \<Rightarrow> Inl e
      | Inr n \<Rightarrow> (case map_names as of Inl e \<Rightarrow> Inl e | Inr ns \<Rightarrow> Inr (n # ns)))"

definition parseAuthors :: "js_value \<Rightarrow> js_error + string list" where
  "parseAuthors authorList =
     (if \<not> truthy authorList then Inr []
      else (let authors = ensureArray (get_prop authorList ''Author'')
            in case map_names authors of
                 Inl e \<Rightarrow> Inl e
               | Inr names \<Rightarrow> Inr (filter (\<lambda>n. n \<noteq> []) names)))"

text \<open>
  The DOI of \<^verbatim>\<open>get_abstract\<close> and of \<^verbatim>\<open>format_citation\<close> (the same lines in
  both), from the value of \<^verbatim>\<open>articleData.ELocationID\<close>. The type of an object, an
  array and null is \<^verbatim>\<open>"object"\<close>.
\<close>

fun doi_loop :: "js_value list \<Rightarrow> js_error + string" where
  "doi_loop [] = Inr []"
| "doi_loop (eid # ids) =
     (case eid of
        JNull \<Rightarrow> Inl TypeError
      | JObj fs \<Rightarrow>
          if get_prop eid ''@_EIdType'' = JStr ''doi'' then Inr (extractText eid)
          else doi_loop ids
      | _ \<Rightarrow> doi_loop ids)"

definition extract_doi :: "js_value \<Rightarrow> js_error + string" where
  "extract_doi elocationIds =
     (if truthy elocationIds
      then doi_loop (case elocationIds of JArr ids \<Rightarrow> ids | v \<Rightarrow> [v])
      else Inr [])"

section \<open>The entity normalizer\<close>













section \<open>Notions used in the statements\<close>

text \<open>
  The sections an extractor emitted for one side of a comparison (none when the fetch
  failed or found no label), and the last emitted section with a given code.
\<close>

definition last_with_code :: "string \<Rightarrow> LabelSection list \<Rightarrow> LabelSection option" where
  "last_with_code c emitted = find (\<lambda>s. code s = c) (rev emitted)"

definition emitted_us ::
  "('b \<Rightarrow> string list option \<Rightarrow> LabelSection list) \<Rightarrow> 'b upstream \<Rightarrow> string list option \<Rightarrow>
   LabelSection list" where
  "emitted_us parse us_up requested =
     (case us_up of
        Found setid structuredBody \<Rightarrow>
          parse structuredBody (Some (map us_loinc (filterSectionMap requested)))
      | _ \<Rightarrow> [])"

definition emitted_uk :: "page upstream \<Rightarrow> string list option \<Rightarrow> LabelSection list" where
  "emitted_uk uk_up requested =
     (case uk_up of
        Found product_id html \<Rightarrow>
          parseSmpcSections html (Some (map uk_code (filterSectionMap requested)))
      | _ \<Rightarrow> [])"

text \<open>
  Two example pages. \<open>leaflet\<close> is a body of four siblings: the heading of section
  4.8, its paragraph, the heading of section 6.3 and its paragraph. \<open>wrapped\<close> is a
  body with one block that carries a section identifier and wraps the heading of
  section 4.1 and its paragraph, so that the selector of the first strategy matches both
  the block and the heading.
\<close>

definition leaflet :: page where
  "leaflet =
     (let body_text = ''4.8 Undesirable effects'' @ [CHR 0x0A] @ ''Nausea.'' @ [CHR 0x0A] @
                      ''6.3 Shelf life'' @ [CHR 0x0A] @ ''2 years'';
          body = \<lparr>el_text = ''4.8 Undesirable effectsNausea.6.3 Shelf life2 years'',
                  el_children = 4, el_inline = False, el_id = 0, el_following = [],
                  el_parent = Some body_text\<rparr>;
          h1 = \<lparr>el_text = ''4.8 Undesirable effects'', el_children = 0, el_inline = False,
                el_id = 1,
                el_following = [(2, ''Nausea.''), (3, ''6.3 Shelf life''), (4, ''2 years'')],
                el_parent = Some body_text\<rparr>;
          p1 = \<lparr>el_text = ''Nausea.'', el_children = 0, el_inline = False, el_id = 2,
                el_following = [(3, ''6.3 Shelf life''), (4, ''2 years'')],
                el_parent = Some body_text\<rparr>;
          h2 = \<lparr>el_text = ''6.3 Shelf life'', el_children = 0, el_inline = False, el_id = 3,
                el_following = [(4, ''2 years'')], el_parent = Some body_text\<rparr>;
          p2 = \<lparr>el_text = ''2 years'', el_children = 0, el_inline = False, el_id = 4,
                el_following = [], el_parent = Some body_text\<rparr>
      in \<lparr>structural = [h1, h2], everything = [body, h1, p1, h2, p2]\<rparr>)"

definition wrapped :: page where
  "wrapped =
     (let block_text = ''4.1 Therapeutic indications'' @ [CHR 0x0A] @ ''For adults.'';
          body = \<lparr>el_text = ''4.1 Therapeutic indicationsFor adults.'', el_children = 1,
                  el_inline = False, el_id = 0, el_following = [], el_parent = Some block_text\<rparr>;
          block = \<lparr>el_text = ''4.1 Therapeutic indicationsFor adults.'', el_children = 2,
                   el_inline = False, el_id = 1, el_following = [], el_parent = Some block_text\<rparr>;
          heading = \<lparr>el_text = ''4.1 Therapeutic indications'', el_children = 0,
                     el_inline = False, el_id = 2, el_following = [(3, ''For adults.'')],
                     el_parent = Some block_text\<rparr>;
          paragraph = \<lparr>el_text = ''For adults.'', el_children = 0, el_inline = False,
                       el_id = 3, el_following = [], el_parent = Some block_text\<rparr>
      in \<lparr>structural = [block, heading], everything = [body, block, heading, paragraph]\<rparr>)"

text \<open>
  The synonyms of the UK filter as a table, in the order of the tests: keywords and the
  code they stand for. \<open>synonym_codes\<close> are the codes of the rows with a keyword
  that the request contains, \<open>synonym_code\<close> is the code of the first such row, and
  a request is \<open>single_topic\<close> when there is at most one such row.
\<close>

definition synonym_table :: "(string list \<times> string) list" where
  "synonym_table =
    [([''indication''], ''4.1''),
     ([''dosage'', ''dosing'', ''posology''], ''4.2''),
     ([''contraindication''], ''4.3''),
     ([''warning'', ''precaution''], ''4.4''),
     ([''interaction''], ''4.5''),
     ([''pregnancy'', ''fertility''], ''4.6''),
     ([''adverse'', ''undesirable'', ''side effect''], ''4.8''),
     ([''overdose'', ''overdosage''], ''4.9''),
     ([''pharmacodynamic''], ''5.1''),
     ([''pharmacokinetic''], ''5.2'')]"

definition synonym_code :: "string \<Rightarrow> string option" where
  "synonym_code lower =
     map_option snd (find (\<lambda>(keywords, c). list_ex (str_includes lower) keywords) synonym_table)"

definition synonym_codes :: "string \<Rightarrow> string list" where
  "synonym_codes lower =
     map snd (filter (\<lambda>(keywords, c). list_ex (str_includes lower) keywords) synonym_table)"

definition single_topic :: "string \<Rightarrow> bool" where
  "single_topic lower \<longleftrightarrow> length (synonym_codes lower) \<le> 1"

text \<open>When a request keeps a section.\<close>

definition request_keeps :: "LabelSection \<Rightarrow> string \<Rightarrow> bool" where
  "request_keeps s req \<longleftrightarrow>
     code s = req \<or> code s = trim (toLowerCase req) \<or>
     str_includes (toLowerCase (title s)) (trim (toLowerCase req)) \<or>
     code s \<in> set (synonym_codes (trim (toLowerCase req)))"

text \<open>
  The match of Claim C4 in the words of the specification: the code equals the request,
  or one of title and request contains the other without regard to case, or the request
  is a synonym for the code.
\<close>

definition kept_as_claimed :: "LabelSection \<Rightarrow> string \<Rightarrow> bool" where
  "kept_as_claimed s req \<longleftrightarrow>
     code s = req \<or>
     str_includes (toLowerCase (title s)) (toLowerCase req) \<or>
     str_includes (toLowerCase req) (toLowerCase (title s)) \<or>
     code s \<in> set (synonym_codes (toLowerCase req))"



text \<open>
  The list \<^verbatim>\<open>ids\<close> that the DOI loop scans, and the test of one entry for the
  identifier type \<^verbatim>\<open>doi\<close>.
\<close>

definition id_list :: "js_value \<Rightarrow> js_value list" where
  "id_list elocationIds = (case elocationIds of JArr ids \<Rightarrow> ids | v \<Rightarrow> [v])"

definition is_doi_entry :: "js_value \<Rightarrow> bool" where
  "is_doi_entry eid \<longleftrightarrow> get_prop eid ''@_EIdType'' = JStr ''doi''"

text \<open>
  The DOI of Claim C9 in the words of the specification: the value of the first entry of
  type \<^verbatim>\<open>doi\<close>, a leading \<^verbatim>\<open>doi:\<close> in any case stripped.
\<close>

definition strip_doi_prefix :: "string \<Rightarrow> string" where
  "strip_doi_prefix s = (if startsWith (toLowerCase s) ''doi:'' then drop 4 s else s)"

definition doi_as_claimed :: "js_value list \<Rightarrow> string" where
  "doi_as_claimed ids =
     (case find is_doi_entry ids of None \<Rightarrow> [] | Some eid \<Rightarrow> strip_doi_prefix (extractText eid))"

text \<open>The codes that the components of a label declare, in document order.\<close>

fun declared_codes :: "spl_component \<Rightarrow> string list" where
  "declared_codes (Component c t txt subs) = c # concat (map declared_codes subs)"

definition document_codes :: "spl_component list \<Rightarrow> string set" where
  "document_codes structuredBody = set (concat (map declared_codes structuredBody))"



















section \<open>Properties of the citation formatter\<close>

lemma split_no_separator: "c \<notin> set p \<Longrightarrow> split c p = [p]"
  by (induction p) auto

lemma split_at_separator: "c \<notin> set p \<Longrightarrow> split c (p @ c # r) = p # split c r"
  by (induction p) auto

lemma split_join:
  "ps \<noteq> [] \<Longrightarrow> \<forall>p\<in>set ps. c \<notin> set p \<Longrightarrow> split c (join [c] ps) = ps"
  by (induction "[c]" ps rule: join.induct)
     (auto simp: split_no_separator split_at_separator)

text \<open>
  Claim C1. In the APA style, a list of at most 7 authors is rendered in full, every
  author by \<open>apa_author\<close>, joined by a comma and a space, with nothing elided. A
  list of more than 7 authors is rendered as exactly its first 6 authors, then the
  marker \<open>, ... \<close>, then its last author. \<open>apa_author\<close> renders a surname followed
  by given names (none of them containing a space, the given names not empty) as the
  surname, a comma, and the initial of each given name with a period. The author string
  is the head of the citation that \<open>formatApa\<close> trims and returns.
\<close>

theorem apa_author_list:
  "(length as \<le> 7 \<longrightarrow> apa_authorStr as = join '', '' (map apa_author as)) \<and>
   (7 < length as \<longrightarrow>
      apa_authorStr as =
        join '', '' (map apa_author (take 6 as)) @ '', ... '' @ apa_author (last as)) \<and>
   ((\<forall>p\<in>set (s # gs). CHR '' '' \<notin> set p) \<and> (\<forall>g\<in>set gs. g \<noteq> []) \<longrightarrow>
      apa_author (join '' '' (s # gs)) =
        s @ '', '' @ join '' '' (map (\<lambda>g. [hd g, CHR ''.'']) gs)) \<and>
   (\<exists>rest. formatApa info = trim (apa_authorStr (info_authors info) @ rest))"
proof (intro conjI impI)
  assume "length as \<le> 7"
  then show "apa_authorStr as = join '', '' (map apa_author as)"
    by (cases as) (simp_all add: apa_authorStr_def)
next
  assume long: "7 < length as"
  then have "as \<noteq> []" by auto
  then have "as ! (length as - 1) = last as" by (simp add: last_conv_nth)
  with long
  show "apa_authorStr as =
        join '', '' (map apa_author (take 6 as)) @ '', ... '' @ apa_author (last as)"
    by (auto simp: apa_authorStr_def)
next
  assume h: "(\<forall>p\<in>set (s # gs). CHR '' '' \<notin> set p) \<and> (\<forall>g\<in>set gs. g \<noteq> [])"
  then have sp: "split CHR '' '' (join '' '' (s # gs)) = s # gs"
    using split_join [of "s # gs" "CHR '' ''"] by simp
  have dots: "map initial_dot gs = map (\<lambda>g. [hd g, CHR ''.'']) gs"
    using h by (auto simp: initial_dot_def split: list.splits)
  show "apa_author (join '' '' (s # gs)) =
        s @ '', '' @ join '' '' (map (\<lambda>g. [hd g, CHR ''.'']) gs)"
    by (simp add: apa_author_def sp dots)
next
  show "\<exists>rest. formatApa info = trim (apa_authorStr (info_authors info) @ rest)"
    unfolding formatApa_def Let_def by (rule exI) (rule refl)
qed

theorem apa_author_list_witness:
  "7 < length [''A B'', ''C D'', ''E F'', ''G H'', ''I J'', ''K L'', ''M N'', ''O P''] \<and>
   apa_authorStr [''A B'', ''C D'', ''E F'', ''G H'', ''I J'', ''K L'', ''M N'', ''O P''] =
     ''A, B., C, D., E, F., G, H., I, J., K, L., ... O, P.'' \<and>
   length [''A B'', ''C D'', ''E F'', ''G H'', ''I J'', ''K L'', ''M N''] \<le> 7 \<and>
   apa_authorStr [''A B'', ''C D'', ''E F'', ''G H'', ''I J'', ''K L'', ''M N''] =
     ''A, B., C, D., E, F., G, H., I, J., K, L., M, N.'' \<and>
   apa_author (join '' '' [''Lamb'', ''Nick'', ''James'']) = ''Lamb, N. J.''"
  using
    apa_author_list
      [of "[''A B'', ''C D'', ''E F'', ''G H'', ''I J'', ''K L'', ''M N'', ''O P'']"
          "''Lamb''" "[''Nick'', ''James'']"]
    apa_author_list
      [of "[''A B'', ''C D'', ''E F'', ''G H'', ''I J'', ''K L'', ''M N'']"
          "''Lamb''" "[''Nick'', ''James'']"]
  by (simp add: apa_author_def initial_dot_def)


section \<open>Properties of the label comparison\<close>

lemma copy_section_id: "copy_section s = s"
  by (simp add: copy_section_def)

lemma map_of_map_set: "map_of (map_set m k v) = (map_of m)(k \<mapsto> v)"
  by (induction m) (auto simp: fun_eq_iff)

lemma keys_map_set: "fst ` set (map_set m k v) = insert k (fst ` set m)"
  by (induction m) force+

lemma distinct_map_set: "distinct (map fst m) \<Longrightarrow> distinct (map fst (map_set m k v))"
  by (induction m) (auto simp: keys_map_set)

lemma map_set_not_Nil: "map_set m k v \<noteq> []"
  by (cases m) (auto split: if_splits)

lemma index_sections_snoc:
  "index_sections (ss @ [s]) = map_set (index_sections ss) (code s) s"
  by (simp add: index_sections_def copy_section_id)

lemma index_sections_Nil: "index_sections [] = []"
  by (simp add: index_sections_def)

lemma index_sections_empty: "index_sections ss = [] \<longleftrightarrow> ss = []"
  by (cases ss rule: rev_cases) (simp_all add: index_sections_Nil index_sections_snoc map_set_not_Nil)

lemma index_sections_distinct: "distinct (map fst (index_sections ss))"
  by (induction ss rule: rev_induct)
     (simp_all add: index_sections_Nil index_sections_snoc distinct_map_set)

lemma index_sections_keys: "fst ` set (index_sections ss) = code ` set ss"
  by (induction ss rule: rev_induct)
     (simp_all add: index_sections_Nil index_sections_snoc keys_map_set)

lemma index_sections_get: "map_get (index_sections ss) c = last_with_code c ss"
  by (induction ss rule: rev_induct)
     (simp_all add: index_sections_Nil index_sections_snoc map_of_map_set map_get_def
        last_with_code_def)

lemma last_with_code_None: "last_with_code c ss = None \<longleftrightarrow> c \<notin> code ` set ss"
  by (auto simp: last_with_code_def find_None_iff)

lemma find_SomeD: "find P xs = Some x \<Longrightarrow> P x \<and> x \<in> set xs"
  by (induction xs) (auto split: if_splits)

lemma index_sections_entries: "(k, s) \<in> set (index_sections ss) \<Longrightarrow> code s = k \<and> s \<in> set ss"
proof -
  assume "(k, s) \<in> set (index_sections ss)"
  then have "map_of (index_sections ss) k = Some s"
    using index_sections_distinct [of ss] by simp
  then have "last_with_code k ss = Some s"
    using index_sections_get [of ss k] by (simp add: map_get_def)
  then show ?thesis
    by (auto simp: last_with_code_def dest: find_SomeD)
qed

lemma fetched_us:
  "sections (settled_value (fetchUsSections parse us_up (map us_loinc (filterSectionMap requested))))
     = index_sections (emitted_us parse us_up requested)"
  by (cases us_up) (simp_all add: settled_value_def fetchUsSections_def emitted_us_def index_sections_Nil)

lemma fetched_uk:
  "sections (settled_value (fetchUkSections uk_up (map uk_code (filterSectionMap requested))))
     = index_sections (emitted_uk uk_up requested)"
  by (cases uk_up) (simp_all add: settled_value_def fetchUkSections_def emitted_uk_def index_sections_Nil)

lemma compare_labels_Inr:
  assumes "compare_labels parse d requested us_up uk_up = Inr r"
  shows "comparisons r =
           map (\<lambda>mapping.
                  \<lparr>topic = m_topic mapping,
                   us_section = last_with_code (us_loinc mapping) (emitted_us parse us_up requested),
                   uk_section = last_with_code (uk_code mapping) (emitted_uk uk_up requested)\<rparr>)
               (filterSectionMap requested)"
  using assms
  by (auto simp: compare_labels_def Let_def fetched_us fetched_uk index_sections_get
      split: if_splits)

text \<open>
  Claim C2. Whenever the comparison produces a result, it has exactly one row per row
  of the (filtered) mapping table, in table order: row \<open>i\<close> carries the topic of
  mapping \<open>i\<close>, the last section the US side emitted under the mapping's US code and
  the last section the UK side emitted under its UK code, whatever the number of
  sections on either side. A mapping with no section on either side still has its row,
  with both sides \<open>None\<close>.
\<close>

theorem comparison_rows:
  assumes "compare_labels parse d requested us_up uk_up = Inr r"
  shows "length (comparisons r) = length (filterSectionMap requested) \<and>
         map topic (comparisons r) = map m_topic (filterSectionMap requested) \<and>
         comparisons r =
           map (\<lambda>mapping.
                  \<lparr>topic = m_topic mapping,
                   us_section = last_with_code (us_loinc mapping) (emitted_us parse us_up requested),
                   uk_section = last_with_code (uk_code mapping) (emitted_uk uk_up requested)\<rparr>)
               (filterSectionMap requested) \<and>
         (\<forall>i<length (filterSectionMap requested).
            us_loinc (filterSectionMap requested ! i) \<notin> code ` set (emitted_us parse us_up requested) \<and>
            uk_code (filterSectionMap requested ! i) \<notin> code ` set (emitted_uk uk_up requested) \<longrightarrow>
            comparisons r ! i =
              \<lparr>topic = m_topic (filterSectionMap requested ! i),
               us_section = None, uk_section = None\<rparr>)"
proof -
  note rows = compare_labels_Inr [OF assms]
  have "length (comparisons r) = length (filterSectionMap requested)"
    by (simp add: rows)
  moreover have "map topic (comparisons r) = map m_topic (filterSectionMap requested)"
    by (simp add: rows comp_def)
  moreover have "\<forall>i<length (filterSectionMap requested).
            us_loinc (filterSectionMap requested ! i) \<notin> code ` set (emitted_us parse us_up requested) \<and>
            uk_code (filterSectionMap requested ! i) \<notin> code ` set (emitted_uk uk_up requested) \<longrightarrow>
            comparisons r ! i =
              \<lparr>topic = m_topic (filterSectionMap requested ! i),
               us_section = None, uk_section = None\<rparr>"
    using last_with_code_None by (simp add: rows)
  ultimately show ?thesis using rows by blast
qed

theorem comparison_rows_witness:
  "compare_labels (\<lambda>(body :: LabelSection list) codes. body) ''metformin''
     (Some [''indications'', ''Dosing''])
     (Found ''abc'' [\<lparr>code = ''34067-9'', title = ''INDICATIONS'', content = ''For diabetes.''\<rparr>])
     (Failed ''Error: eMC error: 503'') =
   Inr \<lparr>drug = ''metformin'',
        comparisons =
          [\<lparr>topic = ''Indications'',
             us_section = Some \<lparr>code = ''34067-9'', title = ''INDICATIONS'', content = ''For diabetes.''\<rparr>,
             uk_section = None\<rparr>,
           \<lparr>topic = ''Dosing'', us_section = None, uk_section = None\<rparr>,
           \<lparr>topic = ''Contraindications'', us_section = None, uk_section = None\<rparr>],
        us_source = Some ''https://dailymed.nlm.nih.gov/dailymed/drugInfo.cfm?setid=abc'',
        uk_source = None\<rparr> \<and>
   length (comparisons (projr (compare_labels (\<lambda>(body :: LabelSection list) codes. body)
     ''metformin'' (Some [''indications'', ''Dosing''])
     (Found ''abc'' [\<lparr>code = ''34067-9'', title = ''INDICATIONS'', content = ''For diabetes.''\<rparr>])
     (Failed ''Error: eMC error: 503'')))) =
   length (filterSectionMap (Some [''indications'', ''Dosing''])) \<and>
   length (filterSectionMap (Some [''indications'', ''Dosing''])) = 3"
proof -
  let ?req = "Some [''indications'', ''Dosing'']"
  let ?us = "Found ''abc'' [\<lparr>code = ''34067-9'', title = ''INDICATIONS'', content = ''For diabetes.''\<rparr>]"
  let ?r = "compare_labels (\<lambda>(body :: LabelSection list) codes. body) ''metformin'' ?req
              ?us (Failed ''Error: eMC error: 503'')"
  have maps: "filterSectionMap ?req =
     [\<lparr>m_topic = ''Indications'', us_loinc = ''34067-9'', uk_code = ''4.1''\<rparr>,
      \<lparr>m_topic = ''Dosing'', us_loinc = ''34068-7'', uk_code = ''4.2''\<rparr>,
      \<lparr>m_topic = ''Contraindications'', us_loinc = ''34070-3'', uk_code = ''4.3''\<rparr>]"
    by (simp add: filterSectionMap_def SECTION_MAP_def topic_requested_def toLowerCase_def
        lower_char_def is_upper_def trim_def is_space_def)
  have run: "?r = Inr \<lparr>drug = ''metformin'',
        comparisons =
          [\<lparr>topic = ''Indications'',
             us_section = Some \<lparr>code = ''34067-9'', title = ''INDICATIONS'', content = ''For diabetes.''\<rparr>,
             uk_section = None\<rparr>,
           \<lparr>topic = ''Dosing'', us_section = None, uk_section = None\<rparr>,
           \<lparr>topic = ''Contraindications'', us_section = None, uk_section = None\<rparr>],
        us_source = Some ''https://dailymed.nlm.nih.gov/dailymed/drugInfo.cfm?setid=abc'',
        uk_source = None\<rparr>"
    unfolding compare_labels_def maps
    by (simp add: fetchUsSections_def fetchUkSections_def settled_value_def
        index_sections_def copy_section_def map_size_def map_get_def rejection_def)
  from comparison_rows [OF run]
  have "length (comparisons (projr ?r)) = length (filterSectionMap ?req)"
    by (simp add: run)
  with run maps show ?thesis by simp
qed

lemma no_sections_us:
  "map_size (sections (settled_value (fetchUsSections parse us_up (map us_loinc (filterSectionMap requested))))) = 0
     \<longleftrightarrow> emitted_us parse us_up requested = []"
  by (simp add: fetched_us map_size_def index_sections_empty)

lemma no_sections_uk:
  "map_size (sections (settled_value (fetchUkSections uk_up (map uk_code (filterSectionMap requested))))) = 0
     \<longleftrightarrow> emitted_uk uk_up requested = []"
  by (simp add: fetched_uk map_size_def index_sections_empty)

text \<open>
  Claim C5. Given at least one mapping row: when both fetches fail, the result is the
  failure \<open>NoLabelling\<close> carrying both reasons, not a comparison. When only one
  side fails and the other side yields at least one section, the result is a
  comparison filled from that side, the failed side absent in every row. When one side
  fails and the other finds no label, the failure carries the one reason there is; when
  both sides find no label, it carries none.
\<close>

theorem comparison_failures:
  assumes rows: "filterSectionMap requested \<noteq> []"
  shows
    "compare_labels parse d requested (Failed us_reason) (Failed uk_reason) =
       Inl (NoLabelling d (Some [''US: '' @ us_reason, ''UK: '' @ uk_reason])) \<and>
     (emitted_uk (Found product_id html) requested \<noteq> [] \<longrightarrow>
        compare_labels parse d requested (Failed us_reason) (Found product_id html) =
          Inr \<lparr>drug = d,
               comparisons =
                 map (\<lambda>mapping.
                        \<lparr>topic = m_topic mapping, us_section = None,
                         uk_section = last_with_code (uk_code mapping)
                                        (emitted_uk (Found product_id html) requested)\<rparr>)
                     (filterSectionMap requested),
               us_source = None,
               uk_source = Some (''https://www.medicines.org.uk/emc/product/'' @ product_id @ ''/smpc'')\<rparr>) \<and>
     (emitted_us parse (Found setid body) requested \<noteq> [] \<longrightarrow>
        compare_labels parse d requested (Found setid body) (Failed uk_reason) =
          Inr \<lparr>drug = d,
               comparisons =
                 map (\<lambda>mapping.
                        \<lparr>topic = m_topic mapping,
                         us_section = last_with_code (us_loinc mapping)
                                        (emitted_us parse (Found setid body) requested),
                         uk_section = None\<rparr>)
                     (filterSectionMap requested),
               us_source = Some (''https://dailymed.nlm.nih.gov/dailymed/drugInfo.cfm?setid='' @ setid),
               uk_source = None\<rparr>) \<and>
     compare_labels parse d requested (Failed us_reason) NoResults =
       Inl (NoLabelling d (Some [''US: '' @ us_reason])) \<and>
     compare_labels parse d requested NoResults (Failed uk_reason) =
       Inl (NoLabelling d (Some [''UK: '' @ uk_reason])) \<and>
     compare_labels parse d requested NoResults NoResults = Inl (NoLabelling d None)"
proof (intro conjI impI)
  show "compare_labels parse d requested (Failed us_reason) (Failed uk_reason) =
       Inl (NoLabelling d (Some [''US: '' @ us_reason, ''UK: '' @ uk_reason]))"
    using rows
    by (simp add: compare_labels_def fetchUsSections_def fetchUkSections_def
        settled_value_def map_size_def rejection_def)
next
  assume uk: "emitted_uk (Found product_id html) requested \<noteq> []"
  have us: "emitted_us parse (Failed us_reason) requested = []"
    by (simp add: emitted_us_def)
  have "last_with_code c [] = None" for c
    by (simp add: last_with_code_def)
  then show "compare_labels parse d requested (Failed us_reason) (Found product_id html) =
          Inr \<lparr>drug = d,
               comparisons =
                 map (\<lambda>mapping.
                        \<lparr>topic = m_topic mapping, us_section = None,
                         uk_section = last_with_code (uk_code mapping)
                                        (emitted_uk (Found product_id html) requested)\<rparr>)
                     (filterSectionMap requested),
               us_source = None,
               uk_source = Some (''https://www.medicines.org.uk/emc/product/'' @ product_id @ ''/smpc'')\<rparr>"
    using rows uk us unfolding compare_labels_def Let_def no_sections_us no_sections_uk
    by (simp add: fetched_us fetched_uk index_sections_get)
      (simp add: fetchUsSections_def fetchUkSections_def settled_value_def)
next
  assume us: "emitted_us parse (Found setid body) requested \<noteq> []"
  have uk: "emitted_uk (Failed uk_reason) requested = []"
    by (simp add: emitted_uk_def)
  have "last_with_code c [] = None" for c
    by (simp add: last_with_code_def)
  then show "compare_labels parse d requested (Found setid body) (Failed uk_reason) =
          Inr \<lparr>drug = d,
               comparisons =
                 map (\<lambda>mapping.
                        \<lparr>topic = m_topic mapping,
                         us_section = last_with_code (us_loinc mapping)
                                        (emitted_us parse (Found setid body) requested),
                         uk_section = None\<rparr>)
                     (filterSectionMap requested),
               us_source = Some (''https://dailymed.nlm.nih.gov/dailymed/drugInfo.cfm?setid='' @ setid),
               uk_source = None\<rparr>"
    using rows uk us unfolding compare_labels_def Let_def no_sections_us no_sections_uk
    by (simp add: fetched_us fetched_uk index_sections_get)
      (simp add: fetchUsSections_def fetchUkSections_def settled_value_def)
next
  show "compare_labels parse d requested (Failed us_reason) NoResults =
       Inl (NoLabelling d (Some [''US: '' @ us_reason]))"
    using rows
    by (simp add: compare_labels_def fetchUsSections_def fetchUkSections_def
        settled_value_def map_size_def rejection_def)
next
  show "compare_labels parse d requested NoResults (Failed uk_reason) =
       Inl (NoLabelling d (Some [''UK: '' @ uk_reason]))"
    using rows
    by (simp add: compare_labels_def fetchUsSections_def fetchUkSections_def
        settled_value_def map_size_def rejection_def)
next
  show "compare_labels parse d requested NoResults NoResults = Inl (NoLabelling d None)"
    using rows
    by (simp add: compare_labels_def fetchUsSections_def fetchUkSections_def
        settled_value_def map_size_def rejection_def)
qed


theorem comparison_failures_witness:
  "filterSectionMap None \<noteq> [] \<and>
   compare_labels (\<lambda>(body :: unit) codes. []) ''aspirin'' None
     (Failed ''Error: DailyMed API error: 500'') (Failed ''Error: eMC error: 503'') =
     Inl (NoLabelling ''aspirin''
           (Some [''US: Error: DailyMed API error: 500'', ''UK: Error: eMC error: 503'']))"
proof -
  have rows: "filterSectionMap None \<noteq> []"
    by (simp add: filterSectionMap_def SECTION_MAP_def)
  from comparison_failures [OF rows, of "\<lambda>(body :: unit) codes. []" "''aspirin''"
      "''Error: DailyMed API error: 500''" "''Error: eMC error: 503''"]
  show ?thesis using rows by simp
qed


lemma copy_section_map: "map copy_section ss = ss"
  by (induction ss) (simp_all add: copy_section_id)

lemma find_first_after:
  "find P xs = None \<Longrightarrow> P s \<Longrightarrow> find P (xs @ s # ys) = Some s"
  by (induction xs) (auto split: if_splits)

lemma last_with_code_last:
  assumes "code s = c" and "c \<notin> code ` set post"
  shows "last_with_code c (pre @ s # post) = Some s"
proof -
  have "find (\<lambda>x. code x = c) (rev post) = None"
    using assms(2) by (auto simp: find_None_iff)
  then have "find (\<lambda>x. code x = c) (rev post @ s # rev pre) = Some s"
    using assms(1) by (rule find_first_after)
  then show ?thesis by (simp add: last_with_code_def)
qed

text \<open>
  Claim C6, as amended. The section index that the comparison builds for either side
  (\<open>index_sections\<close>, the \<^verbatim>\<open>Map\<close> of \<^verbatim>\<open>fetchUsSections\<close> and
  \<^verbatim>\<open>fetchUkSections\<close>) holds at most one section per code: its keys are distinct,
  they are exactly the codes the extractor emitted, every entry is an emitted section
  stored under its own code, and the entry for a code is the last section emitted with
  that code. The section list of a \<^verbatim>\<open>get_smpc\<close> or \<^verbatim>\<open>get_uspi\<close> result is
  not such an index: it is the extractor's list as emitted.
\<close>

theorem section_index_last_wins:
  "distinct (map fst (index_sections emitted)) \<and>
   fst ` set (index_sections emitted) = code ` set emitted \<and>
   (\<forall>(k, s)\<in>set (index_sections emitted). code s = k \<and> s \<in> set emitted) \<and>
   (code s = c \<and> c \<notin> code ` set post \<longrightarrow>
      map_get (index_sections (pre @ s # post)) c = Some s) \<and>
   (\<exists>m. fetchUsSections parse (Found setid body) loincCodes = Fulfilled m \<and>
        sections m = index_sections (parse body (Some loincCodes))) \<and>
   (\<exists>m. fetchUkSections (Found product_id html) ukCodes = Fulfilled m \<and>
        sections m = index_sections (parseSmpcSections html (Some ukCodes))) \<and>
   smpc_sections html requested = parseSmpcSections html requested \<and>
   uspi_sections parse body requested =
     (if parse body (resolveLoincCodes requested) = [] then parse body (Some ALL_PI_CODES)
      else parse body (resolveLoincCodes requested))"
proof (intro conjI impI)
  show "distinct (map fst (index_sections emitted))"
    by (rule index_sections_distinct)
  show "fst ` set (index_sections emitted) = code ` set emitted"
    by (rule index_sections_keys)
  show "\<forall>(k, s)\<in>set (index_sections emitted). code s = k \<and> s \<in> set emitted"
    by (auto dest: index_sections_entries)
  show "map_get (index_sections (pre @ s # post)) c = Some s"
    if "code s = c \<and> c \<notin> code ` set post"
    using that by (simp add: index_sections_get last_with_code_last)
  show "\<exists>m. fetchUsSections parse (Found setid body) loincCodes = Fulfilled m \<and>
        sections m = index_sections (parse body (Some loincCodes))"
    by (simp add: fetchUsSections_def)
  show "\<exists>m. fetchUkSections (Found product_id html) ukCodes = Fulfilled m \<and>
        sections m = index_sections (parseSmpcSections html (Some ukCodes))"
    by (simp add: fetchUkSections_def)
  show "smpc_sections html requested = parseSmpcSections html requested"
    by (simp add: smpc_sections_def copy_section_map)
  show "uspi_sections parse body requested =
     (if parse body (resolveLoincCodes requested) = [] then parse body (Some ALL_PI_CODES)
      else parse body (resolveLoincCodes requested))"
    by (simp add: uspi_sections_def Let_def copy_section_map)
qed

theorem section_index_last_wins_witness:
  "map_get (index_sections
     ([\<lparr>code = ''4.1'', title = ''Indications'', content = ''first''\<rparr>,
       \<lparr>code = ''4.2'', title = ''Posology'', content = ''dose''\<rparr>] @
      \<lparr>code = ''4.1'', title = ''Therapeutic indications'', content = ''second''\<rparr> # [])) ''4.1'' =
     Some \<lparr>code = ''4.1'', title = ''Therapeutic indications'', content = ''second''\<rparr> \<and>
   index_sections (parseSmpcSections wrapped None) =
     [(''4.1'', \<lparr>code = ''4.1'', title = ''Therapeutic indications'', content = ''For adults.''\<rparr>)]"
proof -
  have page: "index_sections (parseSmpcSections wrapped None) =
     [(''4.1'', \<lparr>code = ''4.1'', title = ''Therapeutic indications'', content = ''For adults.''\<rparr>)]"
    by code_simp
  let ?s = "\<lparr>code = ''4.1'', title = ''Therapeutic indications'', content = ''second''\<rparr>"
  let ?pre = "[\<lparr>code = ''4.1'', title = ''Indications'', content = ''first''\<rparr>,
               \<lparr>code = ''4.2'', title = ''Posology'', content = ''dose''\<rparr>]"
  have hyp: "code ?s = ''4.1'' \<and> ''4.1'' \<notin> code ` set ([] :: LabelSection list)"
    by simp
  have "code ?s = ''4.1'' \<and> ''4.1'' \<notin> code ` set ([] :: LabelSection list) \<longrightarrow>
      map_get (index_sections (?pre @ ?s # [])) ''4.1'' = Some ?s"
    by (rule section_index_last_wins [of "[]" ?s "''4.1''" "[]" ?pre,
          THEN conjunct2, THEN conjunct2, THEN conjunct2, THEN conjunct1])
  with hyp have "map_get (index_sections (?pre @ ?s # [])) ''4.1'' = Some ?s"
    by (rule rev_mp)
  then show ?thesis using page by (rule conjI)
qed

text \<open>
  Claim C6 as stated, for every label record, fails: on the page \<open>wrapped\<close> the UK
  extractor emits two sections with the code 4.1, and the record that \<^verbatim>\<open>get_smpc\<close>
  returns lists both.
\<close>

theorem label_record_duplicates:
  "map code (smpc_sections wrapped None) = [''4.1'', ''4.1''] \<and>
   \<not> distinct (map code (smpc_sections wrapped None))"
proof -
  have "map code (smpc_sections wrapped None) = [''4.1'', ''4.1'']"
    by code_simp
  then show ?thesis by simp
qed

section \<open>Properties of the UK filter\<close>

lemma synonym_code_chain:
  "synonym_code lower =
     (if str_includes lower ''indication'' then Some ''4.1''
      else if str_includes lower ''dosage'' \<or> str_includes lower ''dosing'' \<or>
              str_includes lower ''posology'' then Some ''4.2''
      else if str_includes lower ''contraindication'' then Some ''4.3''
      else if str_includes lower ''warning'' \<or> str_includes lower ''precaution''
           then Some ''4.4''
      else if str_includes lower ''interaction'' then Some ''4.5''
      else if str_includes lower ''pregnancy'' \<or> str_includes lower ''fertility''
           then Some ''4.6''
      else if str_includes lower ''adverse'' \<or> str_includes lower ''undesirable'' \<or>
              str_includes lower ''side effect'' then Some ''4.8''
      else if str_includes lower ''overdose'' \<or> str_includes lower ''overdosage''
           then Some ''4.9''
      else if str_includes lower ''pharmacodynamic'' then Some ''5.1''
      else if str_includes lower ''pharmacokinetic'' then Some ''5.2''
      else None)"
  unfolding synonym_code_def synonym_table_def
  by (simp only: find.simps list_ex_Nil_iff list_ex_Cons_iff split_conv option.map snd_conv if_distrib [of "map_option snd"] simp_thms cong: if_cong)

lemma synonym_matches:
  "(synonym_code lower = Some c) =
     (if str_includes lower ''indication'' then c = ''4.1''
      else if str_includes lower ''dosage'' \<or> str_includes lower ''dosing'' \<or>
              str_includes lower ''posology'' then c = ''4.2''
      else if str_includes lower ''contraindication'' then c = ''4.3''
      else if str_includes lower ''warning'' \<or> str_includes lower ''precaution''
           then c = ''4.4''
      else if str_includes lower ''interaction'' then c = ''4.5''
      else if str_includes lower ''pregnancy'' \<or> str_includes lower ''fertility''
           then c = ''4.6''
      else if str_includes lower ''adverse'' \<or> str_includes lower ''undesirable'' \<or>
              str_includes lower ''side effect'' then c = ''4.8''
      else if str_includes lower ''overdose'' \<or> str_includes lower ''overdosage''
           then c = ''4.9''
      else if str_includes lower ''pharmacodynamic'' then c = ''5.1''
      else if str_includes lower ''pharmacokinetic'' then c = ''5.2''
      else False)"
  unfolding synonym_code_chain
  by (simp only: if_distrib [of "\<lambda>x. x = Some c"] option.inject option.simps eq_commute [of _ c] cong: if_cong)

lemma smpc_request_matches_first:
  "smpc_request_matches s req \<longleftrightarrow>
     code s = req \<or> code s = trim (toLowerCase req) \<or>
     str_includes (toLowerCase (title s)) (trim (toLowerCase req)) \<or>
     synonym_code (trim (toLowerCase req)) = Some (code s)"
  unfolding smpc_request_matches_def Let_def synonym_matches
  by (simp only: if_True if_False simp_thms split: if_split) blast

lemma find_first_of_filter:
  "map_option f (find P xs) = (case map f (filter P xs) of [] \<Rightarrow> None | c # _ \<Rightarrow> Some c)"
  by (induction xs) auto

lemma synonym_code_single:
  "single_topic lower \<Longrightarrow> synonym_code lower = Some c \<longleftrightarrow> c \<in> set (synonym_codes lower)"
  unfolding single_topic_def synonym_code_def synonym_codes_def find_first_of_filter
  by (cases "map snd (filter (\<lambda>(keywords, c). list_ex (str_includes lower) keywords)
                       synonym_table)")
     auto

lemma smpc_request_matches_iff:
  "single_topic (trim (toLowerCase req)) \<Longrightarrow> smpc_request_matches s req = request_keeps s req"
  by (simp add: smpc_request_matches_first request_keeps_def synonym_code_single)

lemma filter_requested_iff:
  "reqs \<noteq> [] \<Longrightarrow> \<forall>req\<in>set reqs. single_topic (trim (toLowerCase req)) \<Longrightarrow>
   filter_requested results (Some reqs) =
     filter (\<lambda>s. \<exists>req\<in>set reqs. request_keeps s req) results"
  by (simp add: filter_requested_def list_ex_iff smpc_request_matches_iff cong: filter_cong)

text \<open>
  Claim C4, as amended. The parsed sections of a page are
  \<open>smpc_results (sectionElements html)\<close>. Without requests (omitted, or an empty list)
  every parsed section is kept. With a non-empty list of requests, each with keywords of
  at most one row of the synonym table, the parsed sections that are kept, in their
  order, are those for which some request \<open>r\<close>, with \<open>n\<close> its lower-case trimmed
  form, satisfies: the code equals \<open>r\<close> or \<open>n\<close>; or the lower-case title contains
  \<open>n\<close>; or \<open>n\<close> contains a keyword of the synonym table that stands for the code.
  A request that contains the title is not a match. Nothing is stated for a request
  with keywords of several rows.
\<close>

theorem smpc_filter_by_request:
  "parseSmpcSections html None = smpc_results (sectionElements html) \<and>
   parseSmpcSections html (Some []) = smpc_results (sectionElements html) \<and>
   (reqs \<noteq> [] \<and> (\<forall>req\<in>set reqs. single_topic (trim (toLowerCase req))) \<longrightarrow>
      parseSmpcSections html (Some reqs) =
        filter (\<lambda>s. \<exists>req\<in>set reqs. request_keeps s req) (smpc_results (sectionElements html)) \<and>
      (s \<in> set (parseSmpcSections html (Some reqs)) \<longleftrightarrow>
         s \<in> set (smpc_results (sectionElements html)) \<and>
         (\<exists>req\<in>set reqs. request_keeps s req)))"
  by (auto simp: parseSmpcSections_def filter_requested_iff) (simp_all add: filter_requested_def)

lemma leaflet_results:
  "smpc_results (sectionElements leaflet) =
     [\<lparr>code = ''4.8'', title = ''Undesirable effects'', content = ''Nausea.''\<rparr>,
      \<lparr>code = ''6.3'', title = ''Shelf life'', content = ''2 years''\<rparr>]"
  by code_simp

theorem smpc_filter_by_request_witness:
  "[''Side Effects''] \<noteq> [] \<and>
   parseSmpcSections leaflet (Some [''Side Effects'']) =
     [\<lparr>code = ''4.8'', title = ''Undesirable effects'', content = ''Nausea.''\<rparr>] \<and>
   synonym_codes ''side effects'' = [''4.8'']"
proof -
  have syn: "synonym_codes ''side effects'' = [''4.8'']"
    by (simp add: synonym_codes_def synonym_table_def)
  have low: "trim (toLowerCase ''Side Effects'') = ''side effects''"
    by (simp add: toLowerCase_def lower_char_def is_upper_def trim_def is_space_def)
  have ne: "[''Side Effects''] \<noteq> [] \<and>
            (\<forall>req\<in>set [''Side Effects'']. single_topic (trim (toLowerCase req)))"
    by (simp add: low syn single_topic_def)
  have "parseSmpcSections leaflet (Some [''Side Effects'']) =
     filter (\<lambda>s. \<exists>req\<in>set [''Side Effects'']. request_keeps s req)
       (smpc_results (sectionElements leaflet))"
    by (rule smpc_filter_by_request [of leaflet "[''Side Effects'']",
          THEN conjunct2, THEN conjunct2, THEN mp, OF ne, THEN conjunct1])
  also have "\<dots> = [\<lparr>code = ''4.8'', title = ''Undesirable effects'', content = ''Nausea.''\<rparr>]"
    unfolding leaflet_results
    by (simp add: request_keeps_def low syn)
       (simp add: toLowerCase_def lower_char_def is_upper_def)
  finally show ?thesis using syn by simp
qed

text \<open>
  Claim C4 as stated fails in the direction "request contains title": the request
  \<open>shelf life of the product\<close> contains the title of section 6.3 of the page
  \<open>leaflet\<close>, and the filter drops that section.
\<close>

theorem smpc_filter_one_direction:
  "\<lparr>code = ''6.3'', title = ''Shelf life'', content = ''2 years''\<rparr>
     \<in> set (parseSmpcSections leaflet None) \<and>
   kept_as_claimed \<lparr>code = ''6.3'', title = ''Shelf life'', content = ''2 years''\<rparr>
     ''shelf life of the product'' \<and>
   parseSmpcSections leaflet (Some [''shelf life of the product'']) = []"
proof -
  have low: "toLowerCase ''shelf life of the product'' = ''shelf life of the product''"
    by (simp add: toLowerCase_def lower_char_def is_upper_def)
  have tit: "toLowerCase ''Shelf life'' = ''shelf life''"
    by (simp add: toLowerCase_def lower_char_def is_upper_def)
  have "kept_as_claimed \<lparr>code = ''6.3'', title = ''Shelf life'', content = ''2 years''\<rparr>
     ''shelf life of the product''"
    by (simp add: kept_as_claimed_def low tit)
  moreover have "parseSmpcSections leaflet (Some [''shelf life of the product'']) = []"
    by code_simp
  moreover have "\<lparr>code = ''6.3'', title = ''Shelf life'', content = ''2 years''\<rparr>
     \<in> set (parseSmpcSections leaflet None)"
    by (simp add: parseSmpcSections_def filter_requested_def leaflet_results)
  ultimately show ?thesis by simp
qed

section \<open>Properties of the TreeText extractor\<close>






section \<open>Properties of the bibliographic extractor\<close>

lemma doi_loop_first:
  "JNull \<notin> set ids \<Longrightarrow>
   doi_loop ids = Inr (case find is_doi_entry ids of None \<Rightarrow> [] | Some eid \<Rightarrow> extractText eid)"
  by (induction ids)
     (auto simp: is_doi_entry_def get_prop_def split: js_value.splits)

text \<open>
  Claim C9, as amended. The DOI is the empty string when the alternate-identifier value
  is absent (falsy). Otherwise the value is scanned as a list (a single entry counts as
  a list of one), and the DOI is the text \<open>extractText\<close> gives for the first entry
  whose \<^verbatim>\<open>@_EIdType\<close> attribute is the string \<^verbatim>\<open>doi\<close>, as it is: no prefix
  is stripped. It is the empty string when there is no such entry.
\<close>

theorem doi_first_match:
  "(\<not> truthy elocationIds \<longrightarrow> extract_doi elocationIds = Inr []) \<and>
   (truthy elocationIds \<and> JNull \<notin> set (id_list elocationIds) \<longrightarrow>
      extract_doi elocationIds =
        Inr (case find is_doi_entry (id_list elocationIds) of
               None \<Rightarrow> []
             | Some eid \<Rightarrow> extractText eid))"
  by (simp add: extract_doi_def id_list_def doi_loop_first)

theorem doi_first_match_witness:
  "truthy (JArr [JObj [(''#text'', JStr ''S0140-6736(20)30183-5''), (''@_EIdType'', JStr ''pii'')],
                 JObj [(''#text'', JStr ''10.1000/xyz''), (''@_EIdType'', JStr ''doi'')],
                 JObj [(''#text'', JStr ''10.1000/other''), (''@_EIdType'', JStr ''doi'')]]) \<and>
   extract_doi
     (JArr [JObj [(''#text'', JStr ''S0140-6736(20)30183-5''), (''@_EIdType'', JStr ''pii'')],
            JObj [(''#text'', JStr ''10.1000/xyz''), (''@_EIdType'', JStr ''doi'')],
            JObj [(''#text'', JStr ''10.1000/other''), (''@_EIdType'', JStr ''doi'')]]) =
     Inr ''10.1000/xyz''"
  using doi_first_match
    [of "JArr [JObj [(''#text'', JStr ''S0140-6736(20)30183-5''), (''@_EIdType'', JStr ''pii'')],
               JObj [(''#text'', JStr ''10.1000/xyz''), (''@_EIdType'', JStr ''doi'')],
               JObj [(''#text'', JStr ''10.1000/other''), (''@_EIdType'', JStr ''doi'')]]"]
  by (simp add: id_list_def is_doi_entry_def get_prop_def has_key_def)

text \<open>
  Claim C9 as stated fails where it strips the prefix: for an entry of type
  \<^verbatim>\<open>doi\<close> with the text \<^verbatim>\<open>doi:10.1000/xyz\<close> the code returns the text with
  its prefix, where the claim gives \<^verbatim>\<open>10.1000/xyz\<close>.
\<close>

theorem doi_prefix_kept:
  "extract_doi (JArr [JObj [(''#text'', JStr ''doi:10.1000/xyz''), (''@_EIdType'', JStr ''doi'')]]) =
     Inr ''doi:10.1000/xyz'' \<and>
   doi_as_claimed [JObj [(''#text'', JStr ''doi:10.1000/xyz''), (''@_EIdType'', JStr ''doi'')]] =
     ''10.1000/xyz''"
  by (simp add: extract_doi_def doi_as_claimed_def is_doi_entry_def get_prop_def has_key_def
      strip_doi_prefix_def toLowerCase_def lower_char_def is_upper_def)

lemma author_name_no_fields:
  "\<not> has_key fs ''LastName'' \<Longrightarrow> \<not> has_key fs ''ForeName'' \<Longrightarrow>
   \<not> has_key fs ''CollectiveName'' \<Longrightarrow> author_name (JObj fs) = Inr []"
  by (auto simp: author_name_def nullish_def get_prop_def has_key_def string_or_empty_def
      Let_def map_of_eq_None_iff [symmetric] simp del: map_of_eq_None_iff split: option.splits)

lemma map_names_length: "map_names as = Inr names \<Longrightarrow> length names = length as"
  by (induction as arbitrary: names) (auto split: sum.splits)

lemma map_names_append:
  "map_names (pre @ post) =
     (case map_names pre of
        Inl e \<Rightarrow> Inl e
      | Inr ns \<Rightarrow> (case map_names post of Inl e \<Rightarrow> Inl e | Inr ms \<Rightarrow> Inr (ns @ ms)))"
  by (induction pre) (auto split: sum.splits)

lemma parseAuthors_list:
  "parseAuthors (JObj [(''Author'', JArr as)]) =
     (case map_names as of Inl e \<Rightarrow> Inl e | Inr names \<Rightarrow> Inr (filter (\<lambda>n. n \<noteq> []) names))"
  by (simp add: parseAuthors_def get_prop_def ensureArray_def)

text \<open>
  Claim C10. When \<open>parseAuthors\<close> returns a list, no entry of it is the empty
  string, and the list is at most as long as the list of author elements. An author
  element without surname, given name and collective name (with or without initials)
  has the empty name, and an element with the empty name is dropped: the result is the
  one for the author list without that element.
\<close>

theorem authors_never_empty:
  "(parseAuthors authorList = Inr out \<longrightarrow>
      [] \<notin> set out \<and> length out \<le> length (ensureArray (get_prop authorList ''Author''))) \<and>
   (\<not> has_key fs ''LastName'' \<and> \<not> has_key fs ''ForeName'' \<and> \<not> has_key fs ''CollectiveName'' \<longrightarrow>
      author_name (JObj fs) = Inr []) \<and>
   (author_name a = Inr [] \<longrightarrow>
      parseAuthors (JObj [(''Author'', JArr (pre @ a # post))]) =
      parseAuthors (JObj [(''Author'', JArr (pre @ post))]))"
proof (intro conjI impI)
  assume "parseAuthors authorList = Inr out"
  then show "[] \<notin> set out"
    by (auto simp: parseAuthors_def Let_def split: if_splits sum.splits)
next
  assume "parseAuthors authorList = Inr out"
  then show "length out \<le> length (ensureArray (get_prop authorList ''Author''))"
    by (auto simp: parseAuthors_def Let_def split: if_splits sum.splits
        dest!: map_names_length intro: le_trans [OF length_filter_le])
next
  assume "\<not> has_key fs ''LastName'' \<and> \<not> has_key fs ''ForeName'' \<and> \<not> has_key fs ''CollectiveName''"
  then show "author_name (JObj fs) = Inr []"
    by (simp add: author_name_no_fields)
next
  assume "author_name a = Inr []"
  then show "parseAuthors (JObj [(''Author'', JArr (pre @ a # post))]) =
      parseAuthors (JObj [(''Author'', JArr (pre @ post))])"
    by (simp add: parseAuthors_list map_names_append split: sum.splits)
qed

theorem authors_never_empty_witness:
  "parseAuthors
     (JObj [(''Author'',
        JArr [JObj [(''LastName'', JStr ''Lamb''), (''ForeName'', JStr ''Nick''), (''Initials'', JStr ''N'')],
              JObj [(''Initials'', JStr ''X''), (''@_ValidYN'', JStr ''Y'')],
              JObj [(''CollectiveName'', JStr ''Study Group'')]])]) =
     Inr [''Lamb Nick'', ''Study Group''] \<and>
   author_name (JObj [(''Initials'', JStr ''X''), (''@_ValidYN'', JStr ''Y'')]) = Inr []"
proof -
  let ?a = "JObj [(''Initials'', JStr ''X''), (''@_ValidYN'', JStr ''Y'')]"
  let ?pre = "[JObj [(''LastName'', JStr ''Lamb''), (''ForeName'', JStr ''Nick''), (''Initials'', JStr ''N'')]]"
  let ?post = "[JObj [(''CollectiveName'', JStr ''Study Group'')]]"
  note th = authors_never_empty
      [of "JObj [(''Author'', JArr (?pre @ ?post))]" "[''Lamb Nick'', ''Study Group'']"
          "[(''Initials'', JStr ''X''), (''@_ValidYN'', JStr ''Y'')]" ?a ?pre ?post]
  have keys: "\<not> has_key [(''Initials'', JStr ''X''), (''@_ValidYN'', JStr ''Y'')] ''LastName'' \<and>
              \<not> has_key [(''Initials'', JStr ''X''), (''@_ValidYN'', JStr ''Y'')] ''ForeName'' \<and>
              \<not> has_key [(''Initials'', JStr ''X''), (''@_ValidYN'', JStr ''Y'')] ''CollectiveName''"
    by (simp add: has_key_def)
  with th have empty: "author_name ?a = Inr []" by blast
  with th have "parseAuthors (JObj [(''Author'', JArr (?pre @ ?a # ?post))]) =
                parseAuthors (JObj [(''Author'', JArr (?pre @ ?post))])"
    by blast
  also have "\<dots> = Inr [''Lamb Nick'', ''Study Group'']"
    by (simp add: parseAuthors_def ensureArray_def get_prop_def author_name_def nullish_def
        string_or_empty_def)
  finally show ?thesis using empty by simp
qed

section \<open>Properties of the US label tool\<close>

lemma uspi_sections_eq:
  "uspi_sections parse body requested =
     (if parse body (resolveLoincCodes requested) = [] then parse body (Some ALL_PI_CODES)
      else parse body (resolveLoincCodes requested))"
  by (simp add: uspi_sections_def Let_def copy_section_map)

lemma walk_component_sound:
  "s \<in> set (walk_component codes cmp) \<Longrightarrow>
   code s \<in> set (declared_codes cmp) \<and> code s \<in> set codes"
  by (induction codes cmp rule: walk_component.induct) (fastforce split: if_splits)

lemma walk_component_complete:
  "c \<in> set (declared_codes cmp) \<Longrightarrow> c \<in> set codes \<Longrightarrow>
   \<exists>s\<in>set (walk_component codes cmp). code s = c"
  by (induction codes cmp rule: walk_component.induct) fastforce

lemma parseSplSections_empty:
  "parseSplSections doc (Some codes) = [] \<longleftrightarrow> document_codes doc \<inter> set codes = {}"
proof
  assume empty: "parseSplSections doc (Some codes) = []"
  show "document_codes doc \<inter> set codes = {}"
  proof (rule ccontr)
    assume "document_codes doc \<inter> set codes \<noteq> {}"
    then obtain c cmp where "cmp \<in> set doc" "c \<in> set (declared_codes cmp)" "c \<in> set codes"
      by (auto simp: document_codes_def)
    then obtain s where "s \<in> set (walk_component codes cmp)"
      using walk_component_complete by blast
    with \<open>cmp \<in> set doc\<close> have "s \<in> set (parseSplSections doc (Some codes))"
      by (auto simp: parseSplSections_def)
    with empty show False by simp
  qed
next
  assume disjoint: "document_codes doc \<inter> set codes = {}"
  show "parseSplSections doc (Some codes) = []"
  proof (rule ccontr)
    assume "parseSplSections doc (Some codes) \<noteq> []"
    then obtain s where "s \<in> set (parseSplSections doc (Some codes))"
      by (cases "parseSplSections doc (Some codes)") auto
    then obtain cmp where "cmp \<in> set doc" "s \<in> set (walk_component codes cmp)"
      by (auto simp: parseSplSections_def)
    then have "code s \<in> document_codes doc \<inter> set codes"
      using walk_component_sound [of s codes cmp] by (auto simp: document_codes_def)
    with disjoint show False by simp
  qed
qed

lemma parseSplSections_None:
  "parseSplSections doc None = parseSplSections doc (Some ALL_PI_CODES)"
  by (simp add: parseSplSections_def)

text \<open>
  Claim C3, as amended. For any extractor: when the extraction with the resolved request
  yields no section, the sections of the result are those of the extraction with the
  full known-code list \<open>ALL_PI_CODES\<close>; otherwise they are the sections found. With the
  extractor of the specification: a request that resolves to no code at all, and a
  request for a code of the LOINC shape that no component of the document declares,
  both return the full known-code section set; and whatever the request, the result is
  not empty when the document declares any known code.
\<close>

theorem uspi_fallback:
  "(parse body (resolveLoincCodes requested) = [] \<longrightarrow>
      uspi_sections parse body requested = parse body (Some ALL_PI_CODES)) \<and>
   (parse body (resolveLoincCodes requested) \<noteq> [] \<longrightarrow>
      uspi_sections parse body requested = parse body (resolveLoincCodes requested)) \<and>
   (resolveLoincCodes requested = None \<longrightarrow>
      uspi_sections parseSplSections doc requested = parseSplSections doc (Some ALL_PI_CODES)) \<and>
   (is_loinc_code (trim (toLowerCase input)) \<and>
    trim (toLowerCase input) \<notin> document_codes doc \<longrightarrow>
      uspi_sections parseSplSections doc (Some [input]) =
        parseSplSections doc (Some ALL_PI_CODES)) \<and>
   (document_codes doc \<inter> set ALL_PI_CODES \<noteq> {} \<longrightarrow>
      uspi_sections parseSplSections doc requested \<noteq> [])"
proof (intro conjI impI)
  show "uspi_sections parse body requested = parse body (Some ALL_PI_CODES)"
    if "parse body (resolveLoincCodes requested) = []"
    using that by (simp add: uspi_sections_eq)
  show "uspi_sections parse body requested = parse body (resolveLoincCodes requested)"
    if "parse body (resolveLoincCodes requested) \<noteq> []"
    using that by (simp add: uspi_sections_eq)
  show "uspi_sections parseSplSections doc requested = parseSplSections doc (Some ALL_PI_CODES)"
    if "resolveLoincCodes requested = None"
    using that by (simp add: uspi_sections_eq parseSplSections_None)
  show "uspi_sections parseSplSections doc (Some [input]) =
        parseSplSections doc (Some ALL_PI_CODES)"
    if h: "is_loinc_code (trim (toLowerCase input)) \<and>
           trim (toLowerCase input) \<notin> document_codes doc"
  proof -
    from h have "resolveLoincCodes (Some [input]) = Some [trim (toLowerCase input)]"
      by (simp add: resolveLoincCodes_def Let_def)
    moreover from h have "parseSplSections doc (Some [trim (toLowerCase input)]) = []"
      by (simp add: parseSplSections_empty)
    ultimately show ?thesis by (simp add: uspi_sections_eq)
  qed
  show "uspi_sections parseSplSections doc requested \<noteq> []"
    if "document_codes doc \<inter> set ALL_PI_CODES \<noteq> {}"
    using that by (simp add: uspi_sections_eq parseSplSections_empty)
qed

theorem uspi_fallback_witness:
  "is_loinc_code (trim (toLowerCase ''99999-9'')) \<and>
   uspi_sections parseSplSections
     [Component ''34067-9'' ''INDICATIONS'' ''For diabetes.''
        [Component ''77777-7'' ''OTHER'' ''Other text.'' []],
      Component ''34084-4'' ''ADVERSE REACTIONS'' ''Nausea.'' []]
     (Some [''99999-9'']) =
     [\<lparr>code = ''34067-9'', title = ''INDICATIONS'', content = ''For diabetes.''\<rparr>,
      \<lparr>code = ''34084-4'', title = ''ADVERSE REACTIONS'', content = ''Nausea.''\<rparr>]"
proof -
  let ?doc = "[Component ''34067-9'' ''INDICATIONS'' ''For diabetes.''
                 [Component ''77777-7'' ''OTHER'' ''Other text.'' []],
               Component ''34084-4'' ''ADVERSE REACTIONS'' ''Nausea.'' []]"
  have low: "trim (toLowerCase ''99999-9'') = ''99999-9''"
    by (simp add: toLowerCase_def lower_char_def is_upper_def trim_def is_space_def)
  have shape: "is_loinc_code ''99999-9''"
    by (simp add: is_loinc_code_def is_digit_def)
  have absent: "''99999-9'' \<notin> document_codes ?doc"
    by (simp add: document_codes_def)
  have hyp: "is_loinc_code (trim (toLowerCase ''99999-9'')) \<and>
             trim (toLowerCase ''99999-9'') \<notin> document_codes ?doc"
    using shape absent by (simp only: low simp_thms)
  note th = uspi_fallback [where parse = parseSplSections and body = ?doc
      and requested = "Some [''99999-9'']" and input = "''99999-9''" and doc = ?doc]
  have "uspi_sections parseSplSections ?doc (Some [''99999-9'']) =
        parseSplSections ?doc (Some ALL_PI_CODES)"
    by (rule th [THEN conjunct2, THEN conjunct2, THEN conjunct2, THEN conjunct1, THEN mp,
          OF hyp])
  also have "\<dots> =
     [\<lparr>code = ''34067-9'', title = ''INDICATIONS'', content = ''For diabetes.''\<rparr>,
      \<lparr>code = ''34084-4'', title = ''ADVERSE REACTIONS'', content = ''Nausea.''\<rparr>]"
    by (simp add: parseSplSections_def ALL_PI_CODES_def LOINC_MAP_def)
  finally show ?thesis using shape low by simp
qed

text \<open>
  Claim C3 as stated fails for an unrecognized code that a component of the document
  declares: a string of the LOINC shape passes \<open>resolveLoincCodes\<close> unchanged, whether
  the known-code list has it or not, the extraction finds the component that declares
  it, and the fallback is not taken. The result is that one section, not the full
  known-code section set.
\<close>

theorem unknown_code_declared:
  "''77777-7'' \<notin> set ALL_PI_CODES \<and>
   uspi_sections parseSplSections
     [Component ''34067-9'' ''INDICATIONS'' ''For diabetes.''
        [Component ''77777-7'' ''OTHER'' ''Other text.'' []],
      Component ''34084-4'' ''ADVERSE REACTIONS'' ''Nausea.'' []]
     (Some [''77777-7'']) =
     [\<lparr>code = ''77777-7'', title = ''OTHER'', content = ''Other text.''\<rparr>] \<and>
   parseSplSections
     [Component ''34067-9'' ''INDICATIONS'' ''For diabetes.''
        [Component ''77777-7'' ''OTHER'' ''Other text.'' []],
      Component ''34084-4'' ''ADVERSE REACTIONS'' ''Nausea.'' []]
     (Some ALL_PI_CODES) =
     [\<lparr>code = ''34067-9'', title = ''INDICATIONS'', content = ''For diabetes.''\<rparr>,
      \<lparr>code = ''34084-4'', title = ''ADVERSE REACTIONS'', content = ''Nausea.''\<rparr>]"
  by code_simp

section \<open>Properties of the entity normalizer\<close>



















































end
